theory Spec2Isabelle
  imports Main
begin

section \<open>Python strings\<close>

text \<open>
  A Python \<open>str\<close> is modelled as a \<open>string\<close> whose characters are the code points
  below 256 (Latin-1); \<open>code\<close> is Python's \<open>ord\<close>.  The character classes below
  are those of \<open>str.isspace\<close>, \<open>str.isupper\<close>, \<open>str.lower\<close> and of the \<open>re\<close>
  module (\<open>\w\<close>, \<open>\d\<close>, \<open>\s\<close>, \<open>.\<close>) on that range.
\<close>

definition code :: "char \<Rightarrow> nat" where
  "code c = of_char c"

definition NL :: string where
  "NL = [CHR 0x0A]"

definition isspace :: "char \<Rightarrow> bool" where
  "isspace c = (let n = code c in
     (9 \<le> n \<and> n \<le> 13) \<or> (28 \<le> n \<and> n \<le> 32) \<or> n = 133 \<or> n = 160)"

definition isupper :: "char \<Rightarrow> bool" where
  "isupper c = (let n = code c in
     (65 \<le> n \<and> n \<le> 90) \<or> (192 \<le> n \<and> n \<le> 222 \<and> n \<noteq> 215))"

definition lower_char :: "char \<Rightarrow> char" where
  "lower_char c = (if isupper c then char_of (code c + 32) else c)"

definition lower :: "string \<Rightarrow> string" where
  "lower s = map lower_char s"

definition isdigit :: "char \<Rightarrow> bool" where
  "isdigit c = (let n = code c in 48 \<le> n \<and> n \<le> 57)"

definition isalpha :: "char \<Rightarrow> bool" where
  "isalpha c = (let n = code c in
     (65 \<le> n \<and> n \<le> 90) \<or> (97 \<le> n \<and> n \<le> 122) \<or> n = 170 \<or> n = 181 \<or> n = 186 \<or>
     (192 \<le> n \<and> n \<le> 214) \<or> (216 \<le> n \<and> n \<le> 246) \<or> (248 \<le> n \<and> n \<le> 255))"

definition isnumeric :: "char \<Rightarrow> bool" where
  "isnumeric c = (let n = code c in
     (48 \<le> n \<and> n \<le> 57) \<or> n = 178 \<or> n = 179 \<or> n = 185 \<or> (188 \<le> n \<and> n \<le> 190))"

text \<open>\<open>\w\<close> of a \<open>str\<close> pattern: alphanumeric or underscore.\<close>

definition isword :: "char \<Rightarrow> bool" where
  "isword c = (isalpha c \<or> isnumeric c \<or> c = CHR ''_'')"

text \<open>\<open>any(p(x) for x in xs)\<close>.\<close>

primrec any_of :: "('a \<Rightarrow> bool) \<Rightarrow> 'a list \<Rightarrow> bool" where
  "any_of p [] = False"
| "any_of p (x # xs) = (p x \<or> any_of p xs)"

text \<open>\<open>s.startswith(p)\<close> and \<open>sub in s\<close>.\<close>

fun startswith :: "string \<Rightarrow> string \<Rightarrow> bool" where
  "startswith s [] = True"
| "startswith [] (p # ps) = False"
| "startswith (c # cs) (p # ps) = (c = p \<and> startswith cs ps)"

fun contains :: "string \<Rightarrow> string \<Rightarrow> bool" where
  "contains [] sub = (sub = [])"
| "contains (c # cs) sub = (startswith (c # cs) sub \<or> contains cs sub)"

text \<open>\<open>s.split()\<close>: the maximal runs of non-whitespace characters.\<close>

fun split_acc :: "string \<Rightarrow> string \<Rightarrow> string list" where
  "split_acc cur [] = (if cur = [] then [] else [cur])"
| "split_acc cur (c # cs) =
     (if isspace c then (if cur = [] then split_acc [] cs else cur # split_acc [] cs)
      else split_acc (cur @ [c]) cs)"

definition split_ws :: "string \<Rightarrow> string list" where
  "split_ws s = split_acc [] s"

text \<open>\<open>s.split(sep)\<close> for a one-character separator: never an empty list.\<close>

fun split_on_acc :: "char \<Rightarrow> string \<Rightarrow> string \<Rightarrow> string list" where
  "split_on_acc sep cur [] = [cur]"
| "split_on_acc sep cur (c # cs) =
     (if c = sep then cur # split_on_acc sep [] cs else split_on_acc sep (cur @ [c]) cs)"

definition split_on :: "char \<Rightarrow> string \<Rightarrow> string list" where
  "split_on sep s = split_on_acc sep [] s"

text \<open>\<open>s.strip()\<close> and \<open>s.strip(chars)\<close>.\<close>

definition strip_by :: "(char \<Rightarrow> bool) \<Rightarrow> string \<Rightarrow> string" where
  "strip_by p s = rev (dropWhile p (rev (dropWhile p s)))"

definition strip :: "string \<Rightarrow> string" where
  "strip s = strip_by isspace s"

definition strip_chars :: "string \<Rightarrow> string \<Rightarrow> string" where
  "strip_chars chars s = strip_by (\<lambda>c. List.member chars c) s"

text \<open>\<open>sep.join(xs)\<close>.\<close>

fun join :: "string \<Rightarrow> string list \<Rightarrow> string" where
  "join sep [] = []"
| "join sep [x] = x"
| "join sep (x # y # ys) = x @ sep @ join sep (y # ys)"

text \<open>\<open>s.capitalize()\<close>, for the ASCII keys it is applied to.\<close>

definition upper_ascii :: "char \<Rightarrow> char" where
  "upper_ascii c = (let n = code c in if 97 \<le> n \<and> n \<le> 122 then char_of (n - 32) else c)"

fun capitalize :: "string \<Rightarrow> string" where
  "capitalize [] = []"
| "capitalize (c # cs) = upper_ascii c # lower cs"

text \<open>\<open>str(n)\<close> for a natural number.\<close>

fun digits_of :: "nat \<Rightarrow> nat \<Rightarrow> string" where
  "digits_of 0 n = []"
| "digits_of (Suc fuel) n =
     (if n < 10 then [char_of (48 + n)]
      else digits_of fuel (n div 10) @ [char_of (48 + n mod 10)])"

definition str_nat :: "nat \<Rightarrow> string" where
  "str_nat n = digits_of (Suc n) n"

section \<open>Regular expressions\<close>

text \<open>
  The patterns of the source use literals, alternation, sequencing, \<open>\b\<close>, and greedy
  \<open>*\<close> and \<open>+\<close> over a character class.  A matcher state is the character before the
  current position (None at the start of the string) and the rest of the string.
  \<open>rmatch\<close> lists the states a pattern can end in, in the backtracking order of the
  \<open>re\<close> module (earlier alternatives first, greedy repetitions longest first), so the
  head of the list is the match that \<open>re\<close> reports.
\<close>

datatype cclass = Digit | Space | Dot

datatype regex =
    Lit string
  | Alt "regex list"
  | Seq "regex list"
  | WordB
  | Star cclass
  | Plus cclass

type_synonym mstate = "char option \<times> string"

fun in_class :: "cclass \<Rightarrow> char \<Rightarrow> bool" where
  "in_class Digit c = isdigit c"
| "in_class Space c = isspace c"
| "in_class Dot c = (c \<noteq> CHR 0x0A)"

fun at_boundary :: "mstate \<Rightarrow> bool" where
  "at_boundary (prev, rest) =
     ((case prev of None \<Rightarrow> False | Some c \<Rightarrow> isword c) \<noteq>
      (case rest of [] \<Rightarrow> False | c # _ \<Rightarrow> isword c))"

fun greedy :: "cclass \<Rightarrow> char option \<Rightarrow> string \<Rightarrow> mstate list" where
  "greedy cl prev [] = [(prev, [])]"
| "greedy cl prev (c # cs) =
     (if in_class cl c then greedy cl (Some c) cs @ [(prev, c # cs)] else [(prev, c # cs)])"

fun rmatch :: "regex \<Rightarrow> mstate \<Rightarrow> mstate list" where
  "rmatch (Lit w) (prev, rest) =
     (if startswith rest w
      then [(if w = [] then prev else Some (last w), drop (length w) rest)] else [])"
| "rmatch WordB st = (if at_boundary st then [st] else [])"
| "rmatch (Star cl) (prev, rest) = greedy cl prev rest"
| "rmatch (Plus cl) (prev, rest) = butlast (greedy cl prev rest)"
| "rmatch (Alt rs) st = concat (map (\<lambda>r. rmatch r st) rs)"
| "rmatch (Seq []) st = [st]"
| "rmatch (Seq (r # rs)) st = concat (map (rmatch (Seq rs)) (rmatch r st))"

text \<open>
  \<open>re.search(pattern, s)\<close>: the leftmost position with a match; the result is
  \<open>match.group(0)\<close>, or None when there is no match.
\<close>

fun re_search_from :: "regex \<Rightarrow> char option \<Rightarrow> string \<Rightarrow> string option" where
  "re_search_from r prev [] =
     (case rmatch r (prev, []) of [] \<Rightarrow> None | (_, rest') # _ \<Rightarrow> Some [])"
| "re_search_from r prev (c # cs) =
     (case rmatch r (prev, c # cs) of
        [] \<Rightarrow> re_search_from r (Some c) cs
      | (_, rest') # _ \<Rightarrow> Some (take (length (c # cs) - length rest') (c # cs)))"

definition re_search :: "regex \<Rightarrow> string \<Rightarrow> string option" where
  "re_search r s = re_search_from r None s"

section \<open>Data model\<close>

datatype AIPlatform = CHATGPT | CLAUDE | GEMINI | OTHER

datatype Mode = DETAIL | BASIC

datatype TaskType = CREATIVE | TECHNICAL | ANALYTICAL | EDUCATIONAL | COMPLEX | SIMPLE

text \<open>\<open>task_type.value\<close>.\<close>

fun task_type_value :: "TaskType \<Rightarrow> string" where
  "task_type_value CREATIVE = ''creative''"
| "task_type_value TECHNICAL = ''technical''"
| "task_type_value ANALYTICAL = ''analytical''"
| "task_type_value EDUCATIONAL = ''educational''"
| "task_type_value COMPLEX = ''complex''"
| "task_type_value SIMPLE = ''simple''"

record PromptAnalysis =
  core_intent :: string
  key_entities :: "string list"
  context_level :: string
  output_requirements :: "string list"
  constraints :: "string list"
  clarity_issues :: "string list"
  task_type :: TaskType
  complexity_score :: int

record OptimizationResult =
  optimized_prompt :: string
  improvements :: "string list"
  techniques_applied :: "string list"
  pro_tip :: "string option"

text \<open>The exceptions that the operations used by the source can raise.\<close>

datatype py_error = IndexError | KeyError | AttributeError

text \<open>
  \<open>list(set(xs))\<close> lists the distinct elements of \<open>xs\<close> in the iteration order of a
  Python set of \<open>str\<close>.  That order is a function of the elements' hashes, which are
  salted per interpreter process; it is a parameter \<open>ord\<close> of the model, and
  \<open>set_order ord\<close> states what Python guarantees of it.
\<close>

type_synonym set_listing = "string list \<Rightarrow> string list"

definition set_order :: "set_listing \<Rightarrow> bool" where
  "set_order ord = (\<forall>xs. distinct (ord xs) \<and> set (ord xs) = set xs)"

section \<open>Deconstruct\<close>

definition action_patterns :: "regex list" where
  "action_patterns =
    [Seq [WordB, Alt [Lit ''write'', Lit ''create'', Lit ''generate'', Lit ''make'', Lit ''build'',
                      Lit ''develop'', Lit ''design'', Lit ''draft'', Lit ''compose''], WordB, Star Dot],
     Seq [WordB, Alt [Lit ''analyze'', Lit ''review'', Lit ''evaluate'', Lit ''assess'',
                      Lit ''examine'', Lit ''study''], WordB, Star Dot],
     Seq [WordB, Alt [Lit ''explain'', Lit ''describe'', Lit ''summarize'', Lit ''outline'',
                      Lit ''clarify''], WordB, Star Dot],
     Seq [WordB, Alt [Lit ''help'', Lit ''assist'', Lit ''guide'', Lit ''support''], WordB, Star Dot],
     Seq [WordB, Alt [Lit ''improve'', Lit ''optimize'', Lit ''enhance'', Lit ''refine'', Lit ''fix''],
          WordB, Star Dot]]"

text \<open>The loop over \<open>action_patterns\<close>: the first pattern with a match returns.\<close>

fun first_match :: "regex list \<Rightarrow> string \<Rightarrow> string option" where
  "first_match [] s = None"
| "first_match (pattern # patterns) s =
     (case re_search pattern s of Some m \<Rightarrow> Some m | None \<Rightarrow> first_match patterns s)"

definition extract_intent :: "string \<Rightarrow> string" where
  "extract_intent prompt =
     (case first_match action_patterns (lower prompt) of
        Some m \<Rightarrow> strip m
      | None \<Rightarrow>
          (case split_on CHR ''.'' prompt of
             sentence # _ \<Rightarrow> strip sentence
           | [] \<Rightarrow> take 100 prompt))"

definition entity_keywords :: "string list" where
  "entity_keywords =
    [''email'', ''report'', ''code'', ''essay'', ''article'', ''blog'', ''resume'',
     ''letter'', ''proposal'', ''presentation'', ''analysis'', ''summary'',
     ''review'', ''plan'', ''strategy'', ''design'', ''system'']"

text \<open>
  The loop over the words; \<open>word[0]\<close> raises IndexError on an empty word.
\<close>

fun capitalized_loop :: "string list \<Rightarrow> string list \<Rightarrow> py_error + string list" where
  "capitalized_loop entities [] = Inr entities"
| "capitalized_loop entities (word # words) =
     (case word of
        [] \<Rightarrow> Inl IndexError
      | c # _ \<Rightarrow>
          capitalized_loop
            (if isupper c \<and> \<not> List.member [''the'', ''a'', ''an'', ''i''] (lower word)
             then entities @ [strip_chars ''.,!?;:'' word] else entities)
            words)"

text \<open>
  The list \<open>entities\<close> after both loops, before \<open>list(set(entities))[:10]\<close>.
\<close>

definition entity_candidates :: "string \<Rightarrow> py_error + string list" where
  "entity_candidates prompt =
     (case capitalized_loop [] (split_ws prompt) of
        Inl e \<Rightarrow> Inl e
      | Inr entities \<Rightarrow> Inr (entities @ filter (contains (lower prompt)) entity_keywords))"

definition extract_entities :: "set_listing \<Rightarrow> string \<Rightarrow> py_error + string list" where
  "extract_entities ord prompt =
     (case entity_candidates prompt of
        Inl e \<Rightarrow> Inl e
      | Inr entities \<Rightarrow> Inr (take 10 (ord entities)))"

definition assess_context :: "string \<Rightarrow> string" where
  "assess_context prompt =
     (let word_count = length (split_ws prompt);
          has_details = any_of (contains (lower prompt))
                          [''because'', ''for'', ''about'', ''regarding'', ''context'']
      in if word_count > 50 \<and> has_details then ''High''
         else if word_count > 20 \<or> has_details then ''Medium''
         else ''Low'')"

definition requirement_patterns :: "(string \<times> regex) list" where
  "requirement_patterns =
    [(''length'', Seq [Plus Digit, Star Space,
                       Alt [Lit ''words'', Lit ''pages'', Lit ''paragraphs'', Lit ''sentences'']]),
     (''format'', Alt [Lit ''format'', Lit ''formatted'', Lit ''structure'', Lit ''template'']),
     (''tone'', Alt [Lit ''tone'', Lit ''formal'', Lit ''casual'', Lit ''professional'',
                     Lit ''friendly'', Lit ''persuasive'']),
     (''audience'', Alt [Lit ''audience'', Lit ''for'', Lit ''target'', Lit ''readers'']),
     (''style'', Alt [Lit ''style'', Lit ''writing style'', Lit ''approach''])]"

text \<open>
  The loop over the items of \<open>requirement_patterns\<close>, in insertion order.  The pattern is
  searched twice; \<open>match.group(0)\<close> raises AttributeError when \<open>match\<close> is None.
\<close>

fun requirements_loop :: "string list \<Rightarrow> (string \<times> regex) list \<Rightarrow> string \<Rightarrow> py_error + string list" where
  "requirements_loop requirements [] s = Inr requirements"
| "requirements_loop requirements ((req_type, pattern) # items) s =
     (case re_search pattern s of
        None \<Rightarrow> requirements_loop requirements items s
      | Some _ \<Rightarrow>
          (case re_search pattern s of
             None \<Rightarrow> Inl AttributeError
           | Some m \<Rightarrow>
               requirements_loop (requirements @ [capitalize req_type @ '': '' @ m]) items s))"

definition extract_requirements :: "string \<Rightarrow> py_error + string list" where
  "extract_requirements prompt = requirements_loop [] requirement_patterns (lower prompt)"

definition constraint_indicators :: "string list" where
  "constraint_indicators =
    [''must'', ''should'', ''need to'', ''required'', ''limit'', ''only'',
     ''avoid'', ''without'', ''don'' @ [CHR 0x27] @ ''t'', ''cannot'', ''restriction'']"

definition extract_constraints :: "string \<Rightarrow> string list" where
  "extract_constraints prompt =
     map strip
       (filter (\<lambda>sentence. any_of (contains (lower sentence)) constraint_indicators)
          (split_on CHR ''.'' prompt))"

definition pronoun_pattern :: regex where
  "pronoun_pattern =
     Seq [WordB, Alt [Lit ''it'', Lit ''this'', Lit ''that'', Lit ''they'', Lit ''them''], WordB]"

definition identify_clarity_issues :: "string \<Rightarrow> string list" where
  "identify_clarity_issues prompt =
     (if any_of (contains (lower prompt))
           [''something'', ''anything'', ''stuff'', ''thing'', ''somehow'', ''whatever'']
      then [''Contains vague terms''] else []) @
     (if length (split_ws prompt) < 5
      then [''Very brief - may lack necessary context''] else []) @
     (if \<not> any_of (contains (lower prompt))
             [''format'', ''structure'', ''output'', ''return'', ''give me'', ''provide'']
      then [''Output format not specified''] else []) @
     (if re_search pronoun_pattern (lower prompt) \<noteq> None
      then [''Contains potentially ambiguous pronouns''] else [])"

definition creative_keywords :: "string list" where
  "creative_keywords =
    [''story'', ''creative'', ''imagine'', ''invent'', ''design'', ''brainstorm'',
     ''idea'', ''novel'', ''poem'', ''art'']"

definition technical_keywords :: "string list" where
  "technical_keywords =
    [''code'', ''program'', ''debug'', ''algorithm'', ''function'', ''api'',
     ''technical'', ''system'', ''implementation'', ''architecture'']"

definition analytical_keywords :: "string list" where
  "analytical_keywords =
    [''analyze'', ''compare'', ''evaluate'', ''assess'', ''research'',
     ''data'', ''statistics'', ''metrics'', ''performance'']"

definition educational_keywords :: "string list" where
  "educational_keywords =
    [''explain'', ''teach'', ''learn'', ''understand'', ''tutorial'',
     ''lesson'', ''guide'', ''instruction'', ''how to'']"

definition determine_task_type :: "string \<Rightarrow> string \<Rightarrow> TaskType" where
  "determine_task_type prompt intent =
     (let prompt_lower = lower prompt in
      if any_of (contains prompt_lower) creative_keywords then CREATIVE
      else if any_of (contains prompt_lower) technical_keywords then TECHNICAL
      else if any_of (contains prompt_lower) analytical_keywords then ANALYTICAL
      else if any_of (contains prompt_lower) educational_keywords then EDUCATIONAL
      else if length (split_ws prompt) > 30 \<or> length (split_on CHR ''.'' prompt) > 2 then COMPLEX
      else SIMPLE)"

definition calculate_complexity :: "string \<Rightarrow> string list \<Rightarrow> TaskType \<Rightarrow> int" where
  "calculate_complexity prompt issues ttype =
     (let score = 5;
          word_count = length (split_ws prompt);
          score = (if word_count < 10 then score - 2
                   else if word_count > 50 then score + 2 else score);
          score = score + int (length issues);
          score = (if ttype = TECHNICAL \<or> ttype = COMPLEX then score + 2
                   else if ttype = SIMPLE then score - 2 else score)
      in max 0 (min 10 score))"

definition deconstruct :: "set_listing \<Rightarrow> string \<Rightarrow> py_error + PromptAnalysis" where
  "deconstruct ord prompt =
     (let intent = extract_intent prompt in
      case extract_entities ord prompt of
        Inl e \<Rightarrow> Inl e
      | Inr entities \<Rightarrow>
          (let context = assess_context prompt in
           case extract_requirements prompt of
             Inl e \<Rightarrow> Inl e
           | Inr requirements \<Rightarrow>
               (let constrs = extract_constraints prompt;
                    issues = identify_clarity_issues prompt;
                    ttype = determine_task_type prompt intent;
                    score = calculate_complexity prompt issues ttype
                in Inr \<lparr> core_intent = intent,
                         key_entities = entities,
                         context_level = context,
                         output_requirements = requirements,
                         constraints = constrs,
                         clarity_issues = issues,
                         task_type = ttype,
                         complexity_score = score \<rparr>)))"

section \<open>Diagnose\<close>

text \<open>The diagnosis is a dict from three keys to lists of strings.\<close>

type_synonym diagnosis = "(string \<times> string list) list"

definition diagnose :: "PromptAnalysis \<Rightarrow> diagnosis" where
  "diagnose analysis =
     [(''critical_issues'', clarity_issues analysis),
      (''improvements_needed'',
         (if key_entities analysis = [] \<or> length (key_entities analysis) < 2
          then [''Add more specific details and context''] else []) @
         (if output_requirements analysis = []
          then [''Specify desired output format''] else []) @
         (if context_level analysis = ''Low''
          then [''Provide more context and background''] else []) @
         (if complexity_score analysis > 7 \<and> constraints analysis = []
          then [''Break down into steps or add constraints''] else [])),
      (''strengths'',
         (if context_level analysis = ''High'' then [''Good context provided''] else []) @
         (if constraints analysis \<noteq> [] then [''Clear constraints specified''] else []) @
         (if output_requirements analysis \<noteq> [] then [''Output requirements defined''] else []))]"

section \<open>Develop\<close>

definition select_techniques :: "PromptAnalysis \<Rightarrow> Mode \<Rightarrow> string list" where
  "select_techniques analysis mode =
     [''role_assignment'', ''task_decomposition''] @
     (if mode = DETAIL then [''context_layering'', ''output_specs''] else []) @
     (if complexity_score analysis > 7 then [''chain_of_thought''] else []) @
     (if task_type analysis = CREATIVE then [''multi_perspective''] else []) @
     (if task_type analysis = TECHNICAL then [''constraint_based''] else []) @
     (if task_type analysis = EDUCATIONAL then [''few_shot''] else [])"

text \<open>
  \<open>roles.get(task_type, roles[TaskType.SIMPLE])\<close>: the dict literal has every task type
  as a key.
\<close>

fun assign_role :: "TaskType \<Rightarrow> string" where
  "assign_role CREATIVE =
     ''You are a creative expert with a talent for innovative thinking and storytelling.''"
| "assign_role TECHNICAL =
     ''You are an experienced technical specialist with deep expertise in software development and problem-solving.''"
| "assign_role ANALYTICAL =
     ''You are a data analyst and critical thinker skilled at breaking down complex information.''"
| "assign_role EDUCATIONAL =
     ''You are an expert educator who excels at explaining concepts clearly and effectively.''"
| "assign_role COMPLEX =
     ''You are a strategic thinker capable of handling multifaceted challenges systematically.''"
| "assign_role SIMPLE =
     ''You are a helpful assistant focused on providing clear, concise responses.''"

definition enhance_context :: "string \<Rightarrow> PromptAnalysis \<Rightarrow> string" where
  "enhance_context prompt analysis =
     (if context_level analysis = ''High'' then []
      else NL @ ''**Context:** '' @
           (if key_entities analysis \<noteq> []
            then ''This task involves '' @ join '', '' (take 3 (key_entities analysis)) @ ''. ''
            else []))"

definition clarify_task :: "string \<Rightarrow> PromptAnalysis \<Rightarrow> string" where
  "clarify_task prompt analysis =
     ''**Task:** '' @ core_intent analysis @
     (if key_entities analysis \<noteq> [] \<and> length (key_entities analysis) > 0
      then NL @ ''**Focus areas:** '' @ join '', '' (take 5 (key_entities analysis))
      else [])"

definition create_output_spec :: "PromptAnalysis \<Rightarrow> AIPlatform \<Rightarrow> string" where
  "create_output_spec analysis platform =
     NL @ ''**Output Requirements:**'' @
     (if output_requirements analysis \<noteq> []
      then concat (map (\<lambda>req. NL @ ''- '' @ req) (output_requirements analysis))
      else if task_type analysis = TECHNICAL
      then NL @ ''- Clear, well-commented code'' @ NL @ ''- Explanation of approach''
      else if task_type analysis = CREATIVE
      then NL @ ''- Original and engaging content'' @ NL @ ''- Appropriate tone and style''
      else NL @ ''- Clear and well-structured response'' @
           NL @ ''- Specific and actionable information'')"

definition add_technical_constraints :: "PromptAnalysis \<Rightarrow> string" where
  "add_technical_constraints analysis =
     NL @ ''**Technical Requirements:**'' @
     NL @ ''- Follow best practices and coding standards'' @
     NL @ ''- Consider edge cases and error handling'' @
     NL @ ''- Optimize for performance and maintainability''"

definition apply_platform_formatting :: "string \<Rightarrow> AIPlatform \<Rightarrow> PromptAnalysis \<Rightarrow> string" where
  "apply_platform_formatting prompt platform analysis =
     (if platform = CHATGPT then prompt
      else if platform = CLAUDE then
        (if complexity_score analysis > 7
         then prompt @ NL @ NL @
              ''**Approach:** Break this down systematically and explain your reasoning.''
         else prompt)
      else if platform = GEMINI then
        (if task_type analysis = CREATIVE
         then prompt @ NL @ NL @
              ''Feel free to explore creative angles and multiple possibilities.''
         else prompt)
      else prompt)"

definition develop :: "string \<Rightarrow> PromptAnalysis \<Rightarrow> AIPlatform \<Rightarrow> Mode \<Rightarrow> string" where
  "develop prompt analysis platform mode =
     (let techniques = select_techniques analysis mode;
          optimized_parts =
            (if List.member techniques ''role_assignment''
             then [assign_role (task_type analysis)] else []) @
            (if List.member techniques ''context_layering''
                \<and> enhance_context prompt analysis \<noteq> []
             then [enhance_context prompt analysis] else []) @
            [clarify_task prompt analysis] @
            (if List.member techniques ''output_specs''
             then [create_output_spec analysis platform] else []) @
            (if task_type analysis = CREATIVE \<and> List.member techniques ''multi_perspective''
             then [NL @ ''Consider multiple perspectives and creative angles.'']
             else if task_type analysis = TECHNICAL \<and> List.member techniques ''constraint_based''
             then [add_technical_constraints analysis]
             else if task_type analysis = EDUCATIONAL \<and> List.member techniques ''few_shot''
             then [NL @ ''Provide clear examples and step-by-step explanations.'']
             else if complexity_score analysis > 7 \<and> List.member techniques ''chain_of_thought''
             then [NL @ ''Think through this step-by-step, showing your reasoning.'']
             else []) @
            (if constraints analysis \<noteq> [] \<and> mode = DETAIL
             then [NL @ ''**Constraints:**''] @
                  map (\<lambda>constraint. ''- '' @ constraint) (constraints analysis)
             else [])
      in apply_platform_formatting (join (NL @ NL) optimized_parts) platform analysis)"

section \<open>Deliver\<close>

text \<open>\<open>d[key]\<close> raises KeyError when the key is missing.\<close>

definition dict_get :: "('k \<times> 'v) list \<Rightarrow> 'k \<Rightarrow> py_error + 'v" where
  "dict_get d key = (case map_of d key of None \<Rightarrow> Inl KeyError | Some v \<Rightarrow> Inr v)"

definition tips :: "(TaskType \<times> string) list" where
  "tips =
    [(CREATIVE, ''For creative tasks, consider asking for multiple variations to find the best fit.''),
     (TECHNICAL, ''When asking for code, specify your programming language, version, and any frameworks upfront.''),
     (ANALYTICAL, ''For analysis tasks, provide sample data or clear criteria for evaluation.''),
     (EDUCATIONAL, ''Learning works best when you ask follow-up questions and request examples.''),
     (COMPLEX, ''Break complex tasks into smaller subtasks for better results.'')]"

definition generate_pro_tip :: "PromptAnalysis \<Rightarrow> Mode \<Rightarrow> string" where
  "generate_pro_tip analysis mode =
     (if complexity_score analysis > 7
      then ''For complex requests, consider iterating: start with a draft and refine based on the output.''
      else (case map_of tips (task_type analysis) of
              Some tip \<Rightarrow> tip
            | None \<Rightarrow> ''Be specific about what success looks like for your request.''))"

definition deliver ::
  "string \<Rightarrow> PromptAnalysis \<Rightarrow> diagnosis \<Rightarrow> string list \<Rightarrow> Mode \<Rightarrow> py_error + OptimizationResult" where
  "deliver opt_prompt analysis diag techniques mode =
     (case dict_get diag ''critical_issues'' of
        Inl e \<Rightarrow> Inl e
      | Inr critical \<Rightarrow>
          (case dict_get diag ''improvements_needed'' of
             Inl e \<Rightarrow> Inl e
           | Inr needed \<Rightarrow>
               Inr \<lparr> optimized_prompt = opt_prompt,
                     improvements =
                       (if critical \<noteq> []
                        then [''Fixed '' @ str_nat (length critical) @ '' clarity issues'']
                        else []) @
                       (if contains (join '' '' needed) ''Add more specific details''
                        then [''Enhanced specificity and detail''] else []) @
                       (if contains (join '' '' needed) ''Specify desired output format''
                        then [''Added clear output specifications''] else []) @
                       (if contains (join '' '' needed) ''Provide more context''
                        then [''Layered additional context''] else []) @
                       [''Optimized for '' @ task_type_value (task_type analysis) @ '' tasks''],
                     techniques_applied = techniques,
                     pro_tip = Some (generate_pro_tip analysis mode) \<rparr>))"

section \<open>Public interface\<close>

definition parse_platform :: "string \<Rightarrow> AIPlatform" where
  "parse_platform platform =
     (let platform_lower = lower platform in
      if contains platform_lower ''chatgpt'' \<or> contains platform_lower ''gpt'' then CHATGPT
      else if contains platform_lower ''claude'' then CLAUDE
      else if contains platform_lower ''gemini'' then GEMINI
      else OTHER)"

definition parse_mode :: "string \<Rightarrow> Mode" where
  "parse_mode mode = (if contains (lower mode) ''detail'' then DETAIL else BASIC)"

definition auto_detect_mode :: "string \<Rightarrow> Mode" where
  "auto_detect_mode prompt =
     (let word_count = length (split_ws prompt) in
      if word_count < 15 \<and> any_of (contains (lower prompt)) [''write'', ''create'', ''make'']
      then BASIC
      else if word_count > 25 \<or>
              any_of (contains (lower prompt))
                [''professional'', ''business'', ''technical'', ''comprehensive'', ''detailed'']
      then DETAIL
      else BASIC)"

definition optimize :: "set_listing \<Rightarrow> string \<Rightarrow> string \<Rightarrow> string \<Rightarrow> py_error + OptimizationResult" where
  "optimize ord prompt platform mode =
     (let platform_enum = parse_platform platform;
          mode_enum = parse_mode mode;
          mode_enum = (if mode = ''auto'' then auto_detect_mode prompt else mode_enum)
      in case deconstruct ord prompt of
           Inl e \<Rightarrow> Inl e
         | Inr analysis \<Rightarrow>
             (let diag = diagnose analysis;
                  techniques = select_techniques analysis mode_enum;
                  opt_prompt = develop prompt analysis platform_enum mode_enum
              in deliver opt_prompt analysis diag techniques mode_enum))"

definition generate_clarifying_questions :: "PromptAnalysis \<Rightarrow> string list" where
  "generate_clarifying_questions analysis =
     (let questions =
        (if output_requirements analysis = []
         then [''What format would you like the output in? (e.g., bullet points, paragraph, code)'']
         else []) @
        (if (task_type analysis = CREATIVE \<or> task_type analysis = EDUCATIONAL)
            \<and> \<not> any_of (\<lambda>req. contains (lower req) ''audience'') (output_requirements analysis)
         then [''Who is the target audience?''] else []) @
        (if complexity_score analysis > 7 \<and> constraints analysis = []
         then [''Are there any specific constraints or requirements I should know about?'']
         else []) @
        (if \<not> any_of (\<lambda>req. startswith req ''Length:'') (output_requirements analysis)
            \<and> task_type analysis \<noteq> TECHNICAL
         then [''What length are you aiming for?''] else [])
      in take 3 questions)"

section \<open>The specification's formulations\<close>

text \<open>
  The complexity score as the specification words it: start at 5; minus 2 if the token
  count is below 10, plus 2 if it is above 50; plus 1 per clarity issue; plus 2 if the
  task type is Technical or Complex, minus 2 if it is Simple; clamp to the range 0 to 10.
\<close>

definition spec_complexity_score :: "nat \<Rightarrow> nat \<Rightarrow> TaskType \<Rightarrow> int" where
  "spec_complexity_score token_count issue_count ttype =
     max 0 (min 10
       (5 - (if token_count < 10 then 2 else 0)
          + (if token_count > 50 then 2 else 0)
          + int issue_count
          + (if ttype = TECHNICAL \<or> ttype = COMPLEX then 2 else 0)
          - (if ttype = SIMPLE then 2 else 0)))"

text \<open>
  Task-type determination as the specification words it: an ordered list of (keyword
  set, category) pairs evaluated top to bottom, the first matching category winning.
\<close>

definition category_table :: "(string list \<times> TaskType) list" where
  "category_table =
    [(creative_keywords, CREATIVE), (technical_keywords, TECHNICAL),
     (analytical_keywords, ANALYTICAL), (educational_keywords, EDUCATIONAL)]"

fun first_category :: "(string list \<times> TaskType) list \<Rightarrow> string \<Rightarrow> TaskType option" where
  "first_category [] s = None"
| "first_category ((keywords, category) # table) s =
     (if any_of (contains s) keywords then Some category else first_category table s)"

definition spec_task_type :: "string \<Rightarrow> TaskType" where
  "spec_task_type prompt =
     (case first_category category_table (lower prompt) of
        Some category \<Rightarrow> category
      | None \<Rightarrow>
          if length (split_ws prompt) > 30 \<or> length (split_on CHR ''.'' prompt) > 2
          then COMPLEX else SIMPLE)"

text \<open>
  Clarifying questions as the specification words them: the four triggers, in the order
  format, audience, constraints, length, each with its question; the questions whose
  trigger fired, truncated to the first three.
\<close>

definition question_triggers :: "PromptAnalysis \<Rightarrow> (bool \<times> string) list" where
  "question_triggers analysis =
    [(output_requirements analysis = [],
      ''What format would you like the output in? (e.g., bullet points, paragraph, code)''),
     ((task_type analysis = CREATIVE \<or> task_type analysis = EDUCATIONAL)
        \<and> \<not> any_of (\<lambda>req. contains (lower req) ''audience'') (output_requirements analysis),
      ''Who is the target audience?''),
     (complexity_score analysis > 7 \<and> constraints analysis = [],
      ''Are there any specific constraints or requirements I should know about?''),
     (\<not> any_of (\<lambda>req. startswith req ''Length:'') (output_requirements analysis)
        \<and> task_type analysis \<noteq> TECHNICAL,
      ''What length are you aiming for?'')]"

definition spec_questions :: "PromptAnalysis \<Rightarrow> string list" where
  "spec_questions analysis = take 3 (map snd (filter fst (question_triggers analysis)))"

section \<open>Totality of the pipeline\<close>

lemma split_acc_nonempty: "w \<in> set (split_acc cur s) \<Longrightarrow> w \<noteq> []"
  by (induction s arbitrary: cur) (auto split: if_splits)

lemma split_ws_nonempty: "w \<in> set (split_ws s) \<Longrightarrow> w \<noteq> []"
  unfolding split_ws_def by (rule split_acc_nonempty)

lemma capitalized_loop_total:
  "\<forall>w \<in> set ws. w \<noteq> [] \<Longrightarrow> \<exists>es. capitalized_loop acc ws = Inr es"
proof (induction ws arbitrary: acc)
  case Nil
  then show ?case by simp
next
  case (Cons w ws)
  then obtain c cs where w: "w = c # cs" by (cases w) auto
  from Cons.prems have "\<forall>w \<in> set ws. w \<noteq> []" by simp
  from Cons.IH [OF this] show ?case by (simp add: w)
qed

lemma entity_candidates_total: "\<exists>es. entity_candidates P = Inr es"
proof -
  obtain es where "capitalized_loop [] (split_ws P) = Inr es"
    using capitalized_loop_total [of "split_ws P" "[]"] split_ws_nonempty by blast
  then show ?thesis by (simp add: entity_candidates_def)
qed

lemma extract_entities_total: "\<exists>es. extract_entities ord P = Inr es"
  using entity_candidates_total [of P] by (auto simp: extract_entities_def)

lemma requirements_loop_total: "\<exists>rs. requirements_loop acc items s = Inr rs"
proof (induction items arbitrary: acc)
  case Nil
  then show ?case by simp
next
  case (Cons item items)
  obtain req_type pattern where item: "item = (req_type, pattern)" by (cases item)
  show ?case
  proof (cases "re_search pattern s")
    case None
    then show ?thesis using Cons.IH [of acc] by (simp add: item)
  next
    case (Some m)
    then show ?thesis
      using Cons.IH [of "acc @ [capitalize req_type @ '': '' @ m]"] by (simp add: item)
  qed
qed

lemma extract_requirements_total: "\<exists>rs. extract_requirements P = Inr rs"
  unfolding extract_requirements_def by (rule requirements_loop_total)

lemma deconstruct_Inr:
  assumes "extract_entities ord P = Inr es" and "extract_requirements P = Inr rs"
  shows "deconstruct ord P =
     Inr \<lparr> core_intent = extract_intent P,
           key_entities = es,
           context_level = assess_context P,
           output_requirements = rs,
           constraints = extract_constraints P,
           clarity_issues = identify_clarity_issues P,
           task_type = determine_task_type P (extract_intent P),
           complexity_score =
             calculate_complexity P (identify_clarity_issues P)
               (determine_task_type P (extract_intent P)) \<rparr>"
  using assms by (simp add: deconstruct_def Let_def)

lemma deconstruct_total: "\<exists>a. deconstruct ord P = Inr a"
  using extract_entities_total [of ord P] extract_requirements_total [of P]
  by (auto simp: deconstruct_Inr)

lemma diagnose_keys:
  "dict_get (diagnose a) ''critical_issues'' = Inr (clarity_issues a)"
  "\<exists>needed. dict_get (diagnose a) ''improvements_needed'' = Inr needed"
  by (simp_all add: dict_get_def diagnose_def)

lemma deliver_diagnose_total: "\<exists>r. deliver p a (diagnose a) ts m = Inr r"
  using diagnose_keys [of a] by (auto simp: deliver_def)

lemma optimize_total: "\<exists>r. optimize ord P pl m = Inr r"
proof -
  obtain a where "deconstruct ord P = Inr a" using deconstruct_total by blast
  then show ?thesis using deliver_diagnose_total by (simp add: optimize_def Let_def)
qed

text \<open>
  Claim C8.  For every prompt, the empty one included, and for every platform and mode
  string, \<open>deconstruct\<close> and \<open>optimize\<close> return a result: none of the operations that
  can raise (\<open>word[0]\<close>, \<open>match.group(0)\<close>, the lookups in the diagnosis dict) does so,
  whatever the iteration order of the set of entities.
\<close>

theorem C8_total:
  "(\<exists>a. deconstruct ord P = Inr a) \<and> (\<exists>r. optimize ord P pl m = Inr r)"
  using deconstruct_total optimize_total by blast

theorem C8_total_witness:
  "(\<exists>a. deconstruct remdups [] = Inr a) \<and> (\<exists>r. optimize remdups [] [] [] = Inr r)"
  using C8_total [of remdups "[]" "[]" "[]"] .

section \<open>Substring and keyword lemmas\<close>

lemma any_of_iff: "any_of p xs \<longleftrightarrow> (\<exists>x \<in> set xs. p x)"
  by (induction xs) auto

lemma startswith_map: "startswith s p \<Longrightarrow> startswith (map f s) (map f p)"
  by (induction s p rule: startswith.induct) auto

lemma contains_map: "contains s sub \<Longrightarrow> contains (map f s) (map f sub)"
proof (induction s)
  case Nil
  then show ?case by simp
next
  case (Cons c cs)
  then show ?case using startswith_map [of "c # cs" sub f] by auto
qed

lemma keywords_lower:
  "map lower creative_keywords = creative_keywords"
  "map lower technical_keywords = technical_keywords"
  by code_simp+

lemma lower_fixed: "map lower ks = ks \<Longrightarrow> k \<in> set ks \<Longrightarrow> lower k = k"
  by (metis list.map_id map_eq_conv id_apply)

lemma contains_lower_keyword:
  assumes "map lower ks = ks" and "k \<in> set ks" and "contains P k \<or> contains (lower P) k"
  shows "any_of (contains (lower P)) ks"
proof -
  have "contains (lower P) k"
    using assms contains_map [of P k lower_char] lower_fixed [OF assms(1,2)]
    by (auto simp: lower_def)
  then show ?thesis using assms(2) by (auto simp: any_of_iff)
qed

section \<open>The analysis of a prompt\<close>

lemma help_parts:
  "entity_candidates ''Help'' = Inr [''Help'']"
  "extract_requirements ''Help'' = Inr []"
  "identify_clarity_issues ''Help'' =
     [''Very brief - may lack necessary context'', ''Output format not specified'']"
  "determine_task_type ''Help'' (extract_intent ''Help'') = SIMPLE"
  "calculate_complexity ''Help''
     [''Very brief - may lack necessary context'', ''Output format not specified''] SIMPLE = 3"
  by code_simp+

text \<open>
  Claim C1, as the code has it.  For the prompt "Help", \<open>deconstruct\<close> returns an analysis
  whose clarity issues are exactly "Very brief - may lack necessary context" and "Output
  format not specified", whose task type is Simple and whose complexity score is 3:
  5, minus 2 for fewer than 10 tokens, plus 2 for the two issues, minus 2 for Simple.
\<close>

theorem C1_help:
  "\<exists>a. deconstruct ord ''Help'' = Inr a \<and>
       clarity_issues a =
         [''Very brief - may lack necessary context'', ''Output format not specified''] \<and>
       task_type a = SIMPLE \<and> complexity_score a = 3"
proof -
  have "extract_entities ord ''Help'' = Inr (take 10 (ord [''Help'']))"
    by (simp add: extract_entities_def help_parts(1))
  from deconstruct_Inr [OF this help_parts(2)] show ?thesis
    by (simp add: help_parts)
qed

theorem C1_help_witness:
  "\<exists>a. deconstruct remdups ''Help'' = Inr a \<and>
       clarity_issues a =
         [''Very brief - may lack necessary context'', ''Output format not specified''] \<and>
       task_type a = SIMPLE \<and> complexity_score a = 3"
  using C1_help [of remdups] .

text \<open>
  The claim as stated, with a complexity score of at least 5, is false for "Help".
\<close>

theorem C1_help_counterexample:
  "\<not> (\<exists>a. deconstruct remdups ''Help'' = Inr a \<and>
            List.member (clarity_issues a) ''Very brief - may lack necessary context'' \<and>
            List.member (clarity_issues a) ''Output format not specified'' \<and>
            task_type a = SIMPLE \<and>
            5 \<le> complexity_score a \<and> complexity_score a \<le> 10)"
proof -
  have "extract_entities remdups ''Help'' = Inr (take 10 (remdups [''Help'']))"
    by (simp add: extract_entities_def help_parts(1))
  from deconstruct_Inr [OF this help_parts(2)] show ?thesis
    by (simp add: help_parts)
qed

lemma calculate_complexity_spec:
  "calculate_complexity P issues t = spec_complexity_score (length (split_ws P)) (length issues) t"
  by (cases t) (simp_all add: calculate_complexity_def spec_complexity_score_def Let_def)

text \<open>
  Claim C3.  For every prompt, the complexity score of the analysis lies between 0 and
  10 and is the score of the specification's formula, computed from the token count,
  the number of clarity issues found and the task type.
\<close>

theorem C3_complexity:
  "\<exists>a. deconstruct ord P = Inr a \<and>
       0 \<le> complexity_score a \<and> complexity_score a \<le> 10 \<and>
       complexity_score a =
         spec_complexity_score (length (split_ws P)) (length (clarity_issues a)) (task_type a)"
proof -
  obtain es rs where "extract_entities ord P = Inr es" "extract_requirements P = Inr rs"
    using extract_entities_total extract_requirements_total by blast
  from deconstruct_Inr [OF this] show ?thesis
    by (simp add: calculate_complexity_spec) (simp add: spec_complexity_score_def)
qed

theorem C3_complexity_witness:
  "\<exists>a. deconstruct remdups ''Help'' = Inr a \<and>
       0 \<le> complexity_score a \<and> complexity_score a \<le> 10 \<and>
       complexity_score a =
         spec_complexity_score (length (split_ws ''Help'')) (length (clarity_issues a)) (task_type a)"
  using C3_complexity [of remdups "''Help''"] .

text \<open>
  Claim C4.  The task type is the category of the first keyword set, in the order
  Creative, Technical, Analytical, Educational, with a keyword in the lower-cased prompt.
  In particular a prompt that contains a creative keyword and a technical keyword, in
  any letter case, is classified Creative.
\<close>

theorem C4_priority:
  "determine_task_type P intent = spec_task_type P \<and>
   ((\<exists>kc \<in> set creative_keywords. contains P kc \<or> contains (lower P) kc) \<and>
    (\<exists>kt \<in> set technical_keywords. contains P kt \<or> contains (lower P) kt)
      \<longrightarrow> determine_task_type P intent = CREATIVE)"
proof -
  have "determine_task_type P intent = spec_task_type P"
    by (simp add: determine_task_type_def spec_task_type_def category_table_def Let_def)
  moreover have "determine_task_type P intent = CREATIVE"
    if "kc \<in> set creative_keywords" and "contains P kc \<or> contains (lower P) kc" for kc
    using contains_lower_keyword [OF keywords_lower(1) that]
    by (simp add: determine_task_type_def Let_def)
  ultimately show ?thesis by blast
qed

theorem C4_priority_witness:
  "List.member creative_keywords ''story'' \<and> contains (lower ''A Story about code'') ''story'' \<and>
   List.member technical_keywords ''code'' \<and> contains ''A Story about code'' ''code'' \<and>
   determine_task_type ''A Story about code'' ''x'' = CREATIVE \<and>
   spec_task_type ''A Story about code'' = CREATIVE"
proof -
  have c: "List.member creative_keywords ''story''"
    "contains (lower ''A Story about code'') ''story''"
    by code_simp+
  have t: "List.member technical_keywords ''code''" "contains ''A Story about code'' ''code''"
    by code_simp+
  from c(1) t(1) have m: "''story'' \<in> set creative_keywords" "''code'' \<in> set technical_keywords"
    by (simp_all only: List.member_iff)
  from m(1) c(2) have "\<exists>kc \<in> set creative_keywords. contains ''A Story about code'' kc \<or>
                                    contains (lower ''A Story about code'') kc"
    by blast
  moreover from m(2) t(2) have "\<exists>kt \<in> set technical_keywords. contains ''A Story about code'' kt \<or>
                                     contains (lower ''A Story about code'') kt"
    by blast
  ultimately have "determine_task_type ''A Story about code'' ''x'' = CREATIVE"
    and "determine_task_type ''A Story about code'' ''x'' = spec_task_type ''A Story about code''"
    using C4_priority [of "''A Story about code''" "''x''"] by blast+
  with c t show ?thesis by (simp only: simp_thms)
qed

section \<open>Clarifying questions\<close>

text \<open>
  Claim C9.  The clarifying questions of an analysis are the questions whose trigger
  fired, in the order format, audience, constraints, length, truncated to the first
  three; so there are at most three, in particular for the analysis of any prompt.
\<close>

theorem C9_questions:
  "generate_clarifying_questions a = spec_questions a \<and>
   length (generate_clarifying_questions a) \<le> 3 \<and>
   (\<exists>a'. deconstruct ord P = Inr a' \<and> length (generate_clarifying_questions a') \<le> 3)"
proof -
  have "generate_clarifying_questions a = spec_questions a" for a
    by (simp add: generate_clarifying_questions_def spec_questions_def question_triggers_def Let_def)
  moreover have "length (generate_clarifying_questions a) \<le> 3" for a
    by (simp add: generate_clarifying_questions_def Let_def)
  ultimately show ?thesis using deconstruct_total [of ord P] by blast
qed

text \<open>
  An analysis on which all four triggers fire: the length question is cut off.
\<close>

theorem C9_questions_witness:
  "generate_clarifying_questions
     \<lparr> core_intent = ''tell a story'', key_entities = [], context_level = ''Low'',
       output_requirements = [], constraints = [], clarity_issues = [],
       task_type = CREATIVE, complexity_score = 8 \<rparr> =
   [''What format would you like the output in? (e.g., bullet points, paragraph, code)'',
    ''Who is the target audience?'',
    ''Are there any specific constraints or requirements I should know about?''] \<and>
   length (filter fst (question_triggers
     \<lparr> core_intent = ''tell a story'', key_entities = [], context_level = ''Low'',
       output_requirements = [], constraints = [], clarity_issues = [],
       task_type = CREATIVE, complexity_score = 8 \<rparr>)) = 4 \<and>
   (\<exists>a'. deconstruct remdups ''tell a story'' = Inr a' \<and>
         length (generate_clarifying_questions a') \<le> 3)"
proof -
  let ?A = "\<lparr> core_intent = ''tell a story'', key_entities = [], context_level = ''Low'',
       output_requirements = [], constraints = [], clarity_issues = [],
       task_type = CREATIVE, complexity_score = 8 \<rparr>"
  have "spec_questions ?A =
     [''What format would you like the output in? (e.g., bullet points, paragraph, code)'',
      ''Who is the target audience?'',
      ''Are there any specific constraints or requirements I should know about?'']"
    by (simp add: spec_questions_def question_triggers_def)
  moreover have "length (filter fst (question_triggers ?A)) = 4"
    by (simp add: question_triggers_def)
  ultimately show ?thesis
    using C9_questions [of ?A remdups "''tell a story''"] by simp
qed

section \<open>The pro tip\<close>

lemma generate_pro_tip_cases:
  "generate_pro_tip a m \<noteq> [] \<and>
   (if complexity_score a > 7
    then generate_pro_tip a m =
      ''For complex requests, consider iterating: start with a draft and refine based on the output.''
    else if task_type a = SIMPLE
    then generate_pro_tip a m = ''Be specific about what success looks like for your request.''
    else map_of tips (task_type a) = Some (generate_pro_tip a m))"
  by (cases "task_type a") (simp_all add: generate_pro_tip_def tips_def)

lemma deliver_diagnose_pro_tip:
  "deliver p a (diagnose a) ts m = Inr r \<Longrightarrow> pro_tip r = Some (generate_pro_tip a m)"
  using diagnose_keys [of a] by (auto simp: deliver_def)

text \<open>
  Claim C10.  The result of \<open>optimize\<close> always carries a pro tip, and the tip is a
  non-empty string: the iteration tip when the complexity score exceeds 7, otherwise the
  generic tip for a Simple task and the entry of the tip table for any other task type.
\<close>

theorem C10_pro_tip:
  "\<exists>r a t. optimize ord P pl m = Inr r \<and> deconstruct ord P = Inr a \<and>
     pro_tip r = Some t \<and> t \<noteq> [] \<and>
     (if complexity_score a > 7
      then t = ''For complex requests, consider iterating: start with a draft and refine based on the output.''
      else if task_type a = SIMPLE
      then t = ''Be specific about what success looks like for your request.''
      else map_of tips (task_type a) = Some t)"
proof -
  obtain a where a: "deconstruct ord P = Inr a" using deconstruct_total by blast
  obtain r where r: "optimize ord P pl m = Inr r" using optimize_total by blast
  let ?mode = "if m = ''auto'' then auto_detect_mode P else parse_mode m"
  from a r have "deliver (develop P a (parse_platform pl) ?mode) a (diagnose a)
                   (select_techniques a ?mode) ?mode = Inr r"
    by (simp add: optimize_def Let_def)
  then have "pro_tip r = Some (generate_pro_tip a ?mode)"
    by (rule deliver_diagnose_pro_tip)
  with a r generate_pro_tip_cases [of a ?mode] show ?thesis by blast
qed

theorem C10_pro_tip_witness:
  "\<exists>r a t. optimize remdups ''Help'' ''other'' ''basic'' = Inr r \<and>
     deconstruct remdups ''Help'' = Inr a \<and>
     pro_tip r = Some t \<and> t \<noteq> [] \<and>
     (if complexity_score a > 7
      then t = ''For complex requests, consider iterating: start with a draft and refine based on the output.''
      else if task_type a = SIMPLE
      then t = ''Be specific about what success looks like for your request.''
      else map_of tips (task_type a) = Some t)"
  using C10_pro_tip [of remdups "''Help''" "''other''" "''basic''"] .

section \<open>Platform strings\<close>

lemma startswith_contains: "startswith s q \<Longrightarrow> contains s q"
  by (cases s; cases q) auto

lemma startswith_append_contains: "startswith s (p @ q) \<Longrightarrow> contains s q"
proof (induction p arbitrary: s)
  case Nil
  then show ?case by (simp add: startswith_contains)
next
  case (Cons x p)
  then obtain c cs where "s = c # cs" by (cases s) auto
  with Cons show ?case by auto
qed

lemma contains_append: "contains s (p @ q) \<Longrightarrow> contains s q"
proof (induction s)
  case Nil
  then show ?case by simp
next
  case (Cons c cs)
  then show ?case using startswith_append_contains [of "c # cs" p q] by auto
qed

lemma contains_chatgpt: "contains s ''chatgpt'' \<Longrightarrow> contains s ''gpt''"
  using contains_append [of s "''chat''" "''gpt''"] by simp

lemma parse_platform_examples:
  "parse_platform ''GPT-4'' = CHATGPT" "parse_platform ''Claude Opus'' = CLAUDE"
  by code_simp+

text \<open>
  Claim C6.  The platform string is matched on its lower-cased form, by substring, in
  the order gpt (which every string containing chatgpt contains), claude, gemini; a
  string with none of these is \<open>OTHER\<close>.  "GPT-4" parses to \<open>CHATGPT\<close> and
  "Claude Opus" to \<open>CLAUDE\<close>; the result is a platform for every string.
\<close>

theorem C6_platform:
  "parse_platform ''GPT-4'' = CHATGPT \<and> parse_platform ''Claude Opus'' = CLAUDE \<and>
   (contains (lower s) ''gpt'' \<longrightarrow> parse_platform s = CHATGPT) \<and>
   (\<not> contains (lower s) ''gpt'' \<and> contains (lower s) ''claude''
      \<longrightarrow> parse_platform s = CLAUDE) \<and>
   (\<not> contains (lower s) ''gpt'' \<and> \<not> contains (lower s) ''claude'' \<and>
    contains (lower s) ''gemini'' \<longrightarrow> parse_platform s = GEMINI) \<and>
   (\<not> contains (lower s) ''gpt'' \<and> \<not> contains (lower s) ''claude'' \<and>
    \<not> contains (lower s) ''gemini'' \<longrightarrow> parse_platform s = OTHER) \<and>
   (lower s = lower s' \<longrightarrow> parse_platform s = parse_platform s')"
  using contains_chatgpt [of "lower s"] parse_platform_examples
  by (auto simp: parse_platform_def Let_def)

lemma llama:
  "\<not> contains (lower ''Llama 3'') ''gpt''" "\<not> contains (lower ''Llama 3'') ''claude''"
  "\<not> contains (lower ''Llama 3'') ''gemini''" "lower ''Llama 3'' = lower ''LLAMA 3''"
  by code_simp+

theorem C6_platform_witness:
  "\<not> contains (lower ''Llama 3'') ''gpt'' \<and> \<not> contains (lower ''Llama 3'') ''claude'' \<and>
   \<not> contains (lower ''Llama 3'') ''gemini'' \<and> lower ''Llama 3'' = lower ''LLAMA 3'' \<and>
   parse_platform ''Llama 3'' = OTHER \<and> parse_platform ''LLAMA 3'' = OTHER"
  using C6_platform [of "''Llama 3''" "''LLAMA 3''"] llama by metis

section \<open>Intent extraction\<close>

lemma first_match_None:
  "first_match ps s = None \<longleftrightarrow> (\<forall>p \<in> set ps. re_search p s = None)"
  by (induction ps) (auto split: option.splits)

lemma split_on_acc_hd:
  "split_on_acc sep cur s \<noteq> [] \<and>
   hd (split_on_acc sep cur s) = cur @ takeWhile (\<lambda>c. c \<noteq> sep) s"
  by (induction s arbitrary: cur) auto

lemma split_on_acc_head:
  "\<exists>rest. split_on_acc sep cur s = (cur @ takeWhile (\<lambda>c. c \<noteq> sep) s) # rest"
  using split_on_acc_hd [of sep cur s] by (cases "split_on_acc sep cur s") auto

lemma takeWhile_all: "x \<notin> set s \<Longrightarrow> takeWhile (\<lambda>c. c \<noteq> x) s = s"
  by (induction s) auto

lemma extract_intent_no_match:
  assumes "first_match action_patterns (lower P) = None"
  shows "extract_intent P = strip (takeWhile (\<lambda>c. c \<noteq> CHR ''.'') P)"
proof -
  obtain rest where "split_on CHR ''.'' P = takeWhile (\<lambda>c. c \<noteq> CHR ''.'') P # rest"
    using split_on_acc_head [of "CHR ''.''" "[]" P] by (auto simp: split_on_def)
  with assms show ?thesis by (simp add: extract_intent_def)
qed

text \<open>
  Claim C2, as the code has it.  When none of the five verb patterns matches the
  lower-cased prompt, the core intent is the text before the first period with leading
  and trailing whitespace stripped; a prompt without a period is returned whole, stripped,
  whatever its length.
\<close>

theorem C2_intent_fallback:
  assumes "\<forall>pattern \<in> set action_patterns. re_search pattern (lower P) = None"
  shows "extract_intent P = strip (takeWhile (\<lambda>c. c \<noteq> CHR ''.'') P) \<and>
         (CHR ''.'' \<notin> set P \<longrightarrow> extract_intent P = strip P)"
proof -
  from assms have "first_match action_patterns (lower P) = None"
    by (simp add: first_match_None)
  then have "extract_intent P = strip (takeWhile (\<lambda>c. c \<noteq> CHR ''.'') P)"
    by (rule extract_intent_no_match)
  then show ?thesis by (simp add: takeWhile_all)
qed

theorem C2_intent_fallback_witness:
  "first_match action_patterns (lower '' My plan. Next'') = None \<and>
   extract_intent '' My plan. Next'' = ''My plan''"
proof -
  have none: "first_match action_patterns (lower '' My plan. Next'') = None"
    by code_simp
  then have h: "\<forall>pattern \<in> set action_patterns. re_search pattern (lower '' My plan. Next'') = None"
    by (simp only: first_match_None)
  have "strip (takeWhile (\<lambda>c. c \<noteq> CHR ''.'') '' My plan. Next'') = ''My plan''"
    by code_simp
  with none C2_intent_fallback [OF h] show ?thesis by simp
qed

text \<open>
  The claim as stated is false for a prompt of 101 letters x: no pattern matches, there
  is no period, and the core intent is the whole prompt, not its first 100 characters.
\<close>

theorem C2_intent_fallback_counterexample:
  "first_match action_patterns (lower (replicate 101 CHR ''x'')) = None \<and>
   \<not> contains (replicate 101 CHR ''x'') ''.'' \<and>
   length (extract_intent (replicate 101 CHR ''x'')) = 101 \<and>
   extract_intent (replicate 101 CHR ''x'') \<noteq> take 100 (replicate 101 CHR ''x'')"
proof -
  let ?X = "replicate 101 CHR ''x''"
  have none: "first_match action_patterns (lower ?X) = None" by code_simp
  have "strip (takeWhile (\<lambda>c. c \<noteq> CHR ''.'') ?X) = ?X" by code_simp
  with extract_intent_no_match [OF none] have whole: "extract_intent ?X = ?X" by simp
  have dot: "\<not> contains ?X ''.''" by code_simp
  have "length (take 100 ?X) \<noteq> length ?X" by simp
  then have "?X \<noteq> take 100 ?X" by metis
  with none dot whole show ?thesis by simp
qed

section \<open>The iteration order of the set of entities\<close>

lemma extract_entities_cong:
  "entity_candidates P = Inr es \<Longrightarrow> o1 es = o2 es \<Longrightarrow>
   extract_entities o1 P = extract_entities o2 P"
  by (simp add: extract_entities_def)

lemma deconstruct_cong:
  "entity_candidates P = Inr es \<Longrightarrow> o1 es = o2 es \<Longrightarrow> deconstruct o1 P = deconstruct o2 P"
  using extract_entities_cong [of P es o1 o2] by (simp add: deconstruct_def)

lemma optimize_cong:
  "entity_candidates P = Inr es \<Longrightarrow> o1 es = o2 es \<Longrightarrow>
   optimize o1 P pl m = optimize o2 P pl m"
  using deconstruct_cong [of P es o1 o2] by (simp add: optimize_def)

lemma set_order_pair:
  assumes "set_order ord" and "a \<noteq> b"
  shows "ord [a, b] = [a, b] \<or> ord [a, b] = [b, a]"
proof -
  from assms(1) have d: "distinct (ord [a, b])" and s: "set (ord [a, b]) = {a, b}"
    by (auto simp: set_order_def)
  from d s assms(2) have "length (ord [a, b]) = 2"
    using distinct_card [of "ord [a, b]"] by simp
  then obtain x y where xy: "ord [a, b] = [x, y]"
    by (auto simp: length_Suc_conv numeral_2_eq_2)
  with s have "{x, y} = {a, b}" by simp
  with xy show ?thesis by (auto simp: doubleton_eq_iff)
qed

lemma set_order_remdups: "set_order remdups" "set_order (\<lambda>xs. rev (remdups xs))"
  by (simp_all add: set_order_def)

section \<open>The optimized prompt\<close>

lemma startswith_prefix: "startswith (p @ s) p"
  by (induction p) auto

lemma contains_prefix: "contains (p @ s) p"
  by (rule startswith_contains) (rule startswith_prefix)

lemma contains_appendI: "contains s q \<Longrightarrow> contains (p @ s) q"
  by (induction p) auto

lemma optimize_unfold:
  assumes "deconstruct ord P = Inr a"
  shows "optimize ord P pl m =
     deliver (develop P a (parse_platform pl) (if m = ''auto'' then auto_detect_mode P else parse_mode m))
       a (diagnose a)
       (select_techniques a (if m = ''auto'' then auto_detect_mode P else parse_mode m))
       (if m = ''auto'' then auto_detect_mode P else parse_mode m)"
  using assms by (simp add: optimize_def Let_def)

lemma deliver_diagnose_fields:
  "deliver p a (diagnose a) ts m = Inr r \<Longrightarrow>
   optimized_prompt r = p \<and> techniques_applied r = ts"
  using diagnose_keys [of a] by (auto simp: deliver_def)

lemma write_email_parts:
  "entity_candidates ''Write email'' = Inr [''Write'', ''email'']"
  "extract_requirements ''Write email'' = Inr []"
  "extract_intent ''Write email'' = ''write email''"
  "assess_context ''Write email'' = ''Low''"
  "extract_constraints ''Write email'' = []"
  "identify_clarity_issues ''Write email'' =
     [''Very brief - may lack necessary context'', ''Output format not specified'']"
  "determine_task_type ''Write email'' ''write email'' = SIMPLE"
  "calculate_complexity ''Write email''
     [''Very brief - may lack necessary context'', ''Output format not specified''] SIMPLE = 3"
  "parse_platform ''other'' = OTHER"
  "parse_mode ''basic'' = BASIC"
  by code_simp+

lemma write_email_analysis:
  "deconstruct ord ''Write email'' =
     Inr \<lparr> core_intent = ''write email'',
           key_entities = take 10 (ord [''Write'', ''email'']),
           context_level = ''Low'', output_requirements = [], constraints = [],
           clarity_issues = [''Very brief - may lack necessary context'',
                             ''Output format not specified''],
           task_type = SIMPLE, complexity_score = 3 \<rparr>"
proof -
  have "extract_entities ord ''Write email'' = Inr (take 10 (ord [''Write'', ''email'']))"
    by (simp add: extract_entities_def write_email_parts(1))
  from deconstruct_Inr [OF this write_email_parts(2)] show ?thesis
    by (simp add: write_email_parts)
qed

lemma develop_write_email:
  assumes "es = [''Write'', ''email''] \<or> es = [''email'', ''Write'']"
  shows "develop ''Write email''
     \<lparr> core_intent = ''write email'', key_entities = es,
       context_level = ''Low'', output_requirements = [], constraints = [],
       clarity_issues = [''Very brief - may lack necessary context'',
                         ''Output format not specified''],
       task_type = SIMPLE, complexity_score = 3 \<rparr> OTHER BASIC =
     assign_role SIMPLE @ NL @ NL @ (''**Task:** '' @ ''write email'') @ NL @
       ''**Focus areas:** '' @ join '', '' es"
  using assms
  by (auto simp: develop_def select_techniques_def clarify_task_def
        apply_platform_formatting_def Let_def)

lemma write_email_absent:
  "\<not> contains (assign_role SIMPLE @ NL @ NL @ (''**Task:** '' @ ''write email'') @ NL @
       ''**Focus areas:** '' @ join '', '' [''Write'', ''email'']) ''**Constraints:**''"
  "\<not> contains (assign_role SIMPLE @ NL @ NL @ (''**Task:** '' @ ''write email'') @ NL @
       ''**Focus areas:** '' @ join '', '' [''email'', ''Write'']) ''**Constraints:**''"
  "\<not> contains (assign_role SIMPLE @ NL @ NL @ (''**Task:** '' @ ''write email'') @ NL @
       ''**Focus areas:** '' @ join '', '' [''Write'', ''email'']) ''**Output Requirements:**''"
  "\<not> contains (assign_role SIMPLE @ NL @ NL @ (''**Task:** '' @ ''write email'') @ NL @
       ''**Focus areas:** '' @ join '', '' [''email'', ''Write'']) ''**Output Requirements:**''"
  "contains ''write email'' ''email''"
  by code_simp+

lemma write_email_prompt:
  assumes "ord [''Write'', ''email''] = es"
    and es: "es = [''Write'', ''email''] \<or> es = [''email'', ''Write'']"
  shows "\<exists>r. optimize ord ''Write email'' ''other'' ''basic'' = Inr r \<and>
           optimized_prompt r =
             assign_role SIMPLE @ NL @ NL @ (''**Task:** '' @ ''write email'') @ NL @
               ''**Focus areas:** '' @ join '', '' es"
proof -
  define a where "a =
     \<lparr> core_intent = ''write email'', key_entities = es,
       context_level = ''Low'', output_requirements = [], constraints = [],
       clarity_issues = [''Very brief - may lack necessary context'',
                         ''Output format not specified''],
       task_type = SIMPLE, complexity_score = 3 \<rparr>"
  define S where "S = assign_role SIMPLE @ NL @ NL @ (''**Task:** '' @ ''write email'') @ NL @
       ''**Focus areas:** '' @ join '', '' es"
  from es have "take 10 es = es" by auto
  then have a: "deconstruct ord ''Write email'' = Inr a"
    using write_email_analysis [of ord] assms(1) by (simp add: a_def)
  obtain r where r: "optimize ord ''Write email'' ''other'' ''basic'' = Inr r"
    using optimize_total by blast
  have "develop ''Write email'' a OTHER BASIC = S"
    unfolding a_def S_def by (rule develop_write_email [OF es])
  with r optimize_unfold [OF a, of "''other''" "''basic''"]
  have "deliver S a (diagnose a) (select_techniques a BASIC) BASIC = Inr r"
    by (simp add: write_email_parts)
  then have "optimized_prompt r = S" using deliver_diagnose_fields by blast
  with r show ?thesis unfolding S_def by blast
qed

text \<open>
  Claim C5.  For the prompt "Write email" with platform "other" and mode "basic", under
  any iteration order of the set of entities, the task type is Simple and the optimized
  prompt contains the role sentence of a Simple task and the task block with the core
  intent "write email", which contains "email"; it contains neither a constraints block
  nor an output-requirements block.
\<close>

theorem C5_write_email:
  assumes "set_order ord"
  shows "\<exists>r a. optimize ord ''Write email'' ''other'' ''basic'' = Inr r \<and>
           deconstruct ord ''Write email'' = Inr a \<and>
           task_type a = SIMPLE \<and> constraints a = [] \<and>
           contains (optimized_prompt r) (assign_role SIMPLE) \<and>
           contains (optimized_prompt r) (''**Task:** '' @ core_intent a) \<and>
           contains (core_intent a) ''email'' \<and>
           \<not> contains (optimized_prompt r) ''**Constraints:**'' \<and>
           \<not> contains (optimized_prompt r) ''**Output Requirements:**''"
proof -
  define es where "es = ord [''Write'', ''email'']"
  define a where "a =
     \<lparr> core_intent = ''write email'', key_entities = es,
       context_level = ''Low'', output_requirements = [], constraints = [],
       clarity_issues = [''Very brief - may lack necessary context'',
                         ''Output format not specified''],
       task_type = SIMPLE, complexity_score = 3 \<rparr>"
  define S where "S = assign_role SIMPLE @ NL @ NL @ (''**Task:** '' @ ''write email'') @ NL @
       ''**Focus areas:** '' @ join '', '' es"
  have "''Write'' \<noteq> ''email''" by simp
  from set_order_pair [OF assms this]
  have es: "es = [''Write'', ''email''] \<or> es = [''email'', ''Write'']"
    by (simp add: es_def)
  then have "take 10 es = es" by auto
  then have a: "deconstruct ord ''Write email'' = Inr a"
    using write_email_analysis [of ord] by (simp add: a_def es_def)
  from write_email_prompt [of ord es] es
  obtain r where r: "optimize ord ''Write email'' ''other'' ''basic'' = Inr r"
    and p: "optimized_prompt r = S"
    by (auto simp: es_def S_def)
  have role: "contains S (assign_role SIMPLE)"
    unfolding S_def by (rule contains_prefix)
  have task: "contains S (''**Task:** '' @ core_intent a)"
    unfolding S_def a_def
    by (simp only: PromptAnalysis.simps)
       (intro contains_appendI contains_prefix)
  have absent: "\<not> contains S ''**Constraints:**'' \<and> \<not> contains S ''**Output Requirements:**''"
    using es write_email_absent(1-4) unfolding S_def by metis
  have "task_type a = SIMPLE" "constraints a = []" "core_intent a = ''write email''"
    by (simp_all add: a_def)
  with a r p role task absent write_email_absent(5) show ?thesis by metis
qed

theorem C5_write_email_witness:
  "set_order remdups \<and>
   (\<exists>r a. optimize remdups ''Write email'' ''other'' ''basic'' = Inr r \<and>
           deconstruct remdups ''Write email'' = Inr a \<and>
           task_type a = SIMPLE \<and> constraints a = [] \<and>
           contains (optimized_prompt r) (assign_role SIMPLE) \<and>
           contains (optimized_prompt r) (''**Task:** '' @ core_intent a) \<and>
           contains (core_intent a) ''email'' \<and>
           \<not> contains (optimized_prompt r) ''**Constraints:**'' \<and>
           \<not> contains (optimized_prompt r) ''**Output Requirements:**'')"
  using C5_write_email [OF set_order_remdups(1)] set_order_remdups(1) by blast

section \<open>Determinism\<close>

lemma set_order_length:
  assumes "set_order o1" and "set_order o2"
  shows "length (o1 es) = length (o2 es)"
proof -
  from assms have "length (o1 es) = card (set es)" "length (o2 es) = card (set es)"
    using distinct_card [of "o1 es"] distinct_card [of "o2 es"] by (simp_all add: set_order_def)
  then show ?thesis by simp
qed

lemma set_order_take:
  assumes "set_order ord" and "length (remdups es) \<le> 10"
  shows "set (take 10 (ord es)) = set es"
proof -
  from assms(1) have "length (ord es) = card (set es)" and s: "set (ord es) = set es"
    using distinct_card [of "ord es"] by (simp_all add: set_order_def)
  with assms(2) have "length (ord es) \<le> 10" by (simp add: length_remdups_card_conv)
  with s show ?thesis by simp
qed

lemma diagnose_cong:
  assumes "a1\<lparr>key_entities := []\<rparr> = a2\<lparr>key_entities := []\<rparr>"
    and "length (key_entities a1) = length (key_entities a2)"
  shows "diagnose a1 = diagnose a2"
proof -
  from assms(1) have
    "output_requirements a1 = output_requirements a2" "context_level a1 = context_level a2"
    "complexity_score a1 = complexity_score a2" "constraints a1 = constraints a2"
    "clarity_issues a1 = clarity_issues a2"
    by (cases a1; cases a2; simp)+
  moreover from assms(2) have "key_entities a1 = [] \<longleftrightarrow> key_entities a2 = []"
    by (metis length_0_conv)
  ultimately show ?thesis using assms(2) by (simp add: diagnose_def)
qed

lemma select_techniques_cong:
  assumes "a1\<lparr>key_entities := []\<rparr> = a2\<lparr>key_entities := []\<rparr>"
  shows "select_techniques a1 m = select_techniques a2 m \<and>
         generate_pro_tip a1 m = generate_pro_tip a2 m \<and> task_type a1 = task_type a2"
proof -
  from assms have "complexity_score a1 = complexity_score a2" "task_type a1 = task_type a2"
    by (cases a1; cases a2; simp)+
  then show ?thesis by (simp add: select_techniques_def generate_pro_tip_def)
qed

lemma deliver_improvements_cong:
  "deliver p a d ts m = Inr r \<Longrightarrow> deliver p' a' d ts' m' = Inr r' \<Longrightarrow>
   task_type a = task_type a' \<Longrightarrow> improvements r = improvements r'"
  by (auto simp: deliver_def split: sum.splits)

text \<open>
  Claim C7, as the code has it.  \<open>deconstruct\<close> and \<open>optimize\<close> are functions of
  their arguments and of the iteration order of the set built in entity extraction,
  which is fixed within one interpreter process and differs between processes.  Under
  two iteration orders that list the prompt's entities alike, the analyses and the results
  are identical.  Under any two iteration orders, the analyses agree on every field but
  \<open>key_entities\<close>, which has the same length in both (and the same elements when
  there are at most 10 distinct entities), and the results agree on the improvements,
  the techniques and the pro tip.
\<close>

theorem C7_determinism:
  assumes "set_order o1" and "set_order o2"
  shows "\<exists>es a1 a2 r1 r2.
           entity_candidates P = Inr es \<and>
           deconstruct o1 P = Inr a1 \<and> deconstruct o2 P = Inr a2 \<and>
           optimize o1 P pl m = Inr r1 \<and> optimize o2 P pl m = Inr r2 \<and>
           (o1 es = o2 es \<longrightarrow> a1 = a2 \<and> r1 = r2) \<and>
           a1\<lparr>key_entities := []\<rparr> = a2\<lparr>key_entities := []\<rparr> \<and>
           length (key_entities a1) = length (key_entities a2) \<and>
           (length (remdups es) \<le> 10 \<longrightarrow> set (key_entities a1) = set (key_entities a2)) \<and>
           improvements r1 = improvements r2 \<and>
           techniques_applied r1 = techniques_applied r2 \<and>
           pro_tip r1 = pro_tip r2"
proof -
  let ?md = "if m = ''auto'' then auto_detect_mode P else parse_mode m"
  obtain es where es: "entity_candidates P = Inr es" using entity_candidates_total by blast
  obtain rs where rs: "extract_requirements P = Inr rs"
    using extract_requirements_total by blast
  obtain a1 where a1: "deconstruct o1 P = Inr a1" using deconstruct_total by blast
  obtain a2 where a2: "deconstruct o2 P = Inr a2" using deconstruct_total by blast
  obtain r1 where r1: "optimize o1 P pl m = Inr r1" using optimize_total by blast
  obtain r2 where r2: "optimize o2 P pl m = Inr r2" using optimize_total by blast
  have e1: "extract_entities o1 P = Inr (take 10 (o1 es))"
    and e2: "extract_entities o2 P = Inr (take 10 (o2 es))"
    using es by (simp_all add: extract_entities_def)
  from a1 a2 deconstruct_Inr [OF e1 rs] deconstruct_Inr [OF e2 rs]
  have k1: "key_entities a1 = take 10 (o1 es)" and k2: "key_entities a2 = take 10 (o2 es)"
    and same: "a1\<lparr>key_entities := []\<rparr> = a2\<lparr>key_entities := []\<rparr>"
    by auto
  have len: "length (key_entities a1) = length (key_entities a2)"
    using set_order_length [OF assms, of es] by (simp add: k1 k2)
  have sets: "set (key_entities a1) = set (key_entities a2)" if "length (remdups es) \<le> 10"
    using set_order_take [OF assms(1) that] set_order_take [OF assms(2) that]
    by (simp add: k1 k2)
  have cong: "a1 = a2 \<and> r1 = r2" if "o1 es = o2 es"
    using deconstruct_cong [of P es o1 o2] optimize_cong [of P es o1 o2 pl m]
      es that a1 a2 r1 r2
    by simp
  have d: "diagnose a1 = diagnose a2" by (rule diagnose_cong [OF same len])
  note st = select_techniques_cong [OF same, of ?md]
  from r1 optimize_unfold [OF a1, of pl m]
  have d1: "deliver (develop P a1 (parse_platform pl) ?md) a1 (diagnose a1)
              (select_techniques a1 ?md) ?md = Inr r1" by simp
  from r2 optimize_unfold [OF a2, of pl m]
  have d2: "deliver (develop P a2 (parse_platform pl) ?md) a2 (diagnose a1)
              (select_techniques a2 ?md) ?md = Inr r2" by (simp add: d)
  have imp: "improvements r1 = improvements r2"
    using deliver_improvements_cong [OF d1 d2] st by simp
  from d2 have d2': "deliver (develop P a2 (parse_platform pl) ?md) a2 (diagnose a2)
              (select_techniques a2 ?md) ?md = Inr r2" by (simp add: d)
  have tech: "techniques_applied r1 = techniques_applied r2"
    using deliver_diagnose_fields [OF d1] deliver_diagnose_fields [OF d2'] st by simp
  have tip: "pro_tip r1 = pro_tip r2"
    using deliver_diagnose_pro_tip [OF d1] deliver_diagnose_pro_tip [OF d2'] st by simp
  from es a1 a2 r1 r2 cong same len sets imp tech tip show ?thesis by blast
qed

theorem C7_determinism_witness:
  "set_order remdups \<and> set_order (\<lambda>xs. rev (remdups xs)) \<and>
   (\<exists>a1 a2 r1 r2.
           deconstruct remdups ''Write email'' = Inr a1 \<and>
           deconstruct (\<lambda>xs. rev (remdups xs)) ''Write email'' = Inr a2 \<and>
           optimize remdups ''Write email'' ''other'' ''basic'' = Inr r1 \<and>
           optimize (\<lambda>xs. rev (remdups xs)) ''Write email'' ''other'' ''basic'' = Inr r2 \<and>
           a1\<lparr>key_entities := []\<rparr> = a2\<lparr>key_entities := []\<rparr> \<and>
           length (key_entities a1) = length (key_entities a2) \<and>
           set (key_entities a1) = set (key_entities a2) \<and>
           improvements r1 = improvements r2 \<and>
           techniques_applied r1 = techniques_applied r2 \<and>
           pro_tip r1 = pro_tip r2)"
proof -
  from C7_determinism [OF set_order_remdups, of "''Write email''" "''other''" "''basic''"]
  obtain es a1 a2 r1 r2 where
    es: "entity_candidates ''Write email'' = Inr es"
    and rest: "deconstruct remdups ''Write email'' = Inr a1"
      "deconstruct (\<lambda>xs. rev (remdups xs)) ''Write email'' = Inr a2"
      "optimize remdups ''Write email'' ''other'' ''basic'' = Inr r1"
      "optimize (\<lambda>xs. rev (remdups xs)) ''Write email'' ''other'' ''basic'' = Inr r2"
      "a1\<lparr>key_entities := []\<rparr> = a2\<lparr>key_entities := []\<rparr>"
      "length (key_entities a1) = length (key_entities a2)"
      "improvements r1 = improvements r2"
      "techniques_applied r1 = techniques_applied r2"
      "pro_tip r1 = pro_tip r2"
    and sets: "length (remdups es) \<le> 10 \<longrightarrow> set (key_entities a1) = set (key_entities a2)"
    by blast
  from es have "es = [''Write'', ''email'']" by (simp add: write_email_parts(1))
  with sets have "set (key_entities a1) = set (key_entities a2)" by simp
  with rest set_order_remdups show ?thesis by blast
qed

text \<open>
  The claim as stated fails across iteration orders: for "Write email" the two orders of
  the entities Write and email give different analyses and different optimized prompts.
\<close>

theorem C7_determinism_counterexample:
  "set_order remdups \<and> set_order (\<lambda>xs. rev (remdups xs)) \<and>
   optimize remdups ''Write email'' ''other'' ''basic'' \<noteq>
     optimize (\<lambda>xs. rev (remdups xs)) ''Write email'' ''other'' ''basic'' \<and>
   deconstruct remdups ''Write email'' \<noteq>
     deconstruct (\<lambda>xs. rev (remdups xs)) ''Write email''"
proof -
  have "remdups [''Write'', ''email''] = [''Write'', ''email'']" by simp
  with write_email_prompt [of remdups "[''Write'', ''email'']"]
  obtain r1 where r1: "optimize remdups ''Write email'' ''other'' ''basic'' = Inr r1"
    and p1: "optimized_prompt r1 =
             assign_role SIMPLE @ NL @ NL @ (''**Task:** '' @ ''write email'') @ NL @
               ''**Focus areas:** '' @ join '', '' [''Write'', ''email'']" by blast
  have "rev (remdups [''Write'', ''email'']) = [''email'', ''Write'']" by simp
  with write_email_prompt [of "\<lambda>xs. rev (remdups xs)" "[''email'', ''Write'']"]
  obtain r2 where
    r2: "optimize (\<lambda>xs. rev (remdups xs)) ''Write email'' ''other'' ''basic'' = Inr r2"
    and p2: "optimized_prompt r2 =
             assign_role SIMPLE @ NL @ NL @ (''**Task:** '' @ ''write email'') @ NL @
               ''**Focus areas:** '' @ join '', '' [''email'', ''Write'']" by blast
  from p1 p2 have "optimized_prompt r1 \<noteq> optimized_prompt r2" by simp
  then have opt: "optimize remdups ''Write email'' ''other'' ''basic'' \<noteq>
     optimize (\<lambda>xs. rev (remdups xs)) ''Write email'' ''other'' ''basic''"
    using r1 r2 by auto
  have dec: "deconstruct remdups ''Write email'' \<noteq>
     deconstruct (\<lambda>xs. rev (remdups xs)) ''Write email''"
    by (simp add: write_email_analysis)
  from opt dec set_order_remdups show ?thesis by simp
qed

end
